theory Spec2Isabelle
  imports Complex_Main "HOL-Library.AList"
begin

section \<open>Kohya LoRA manager: data model\<close>

text \<open>
  A shallow embedding of \<^verbatim>\<open>ldm/modules/kohya_lora_manager.py\<close>.
  Python dictionaries are association lists in insertion order: \<open>AList.update\<close> replaces the
  value of a key that is present where it stands and appends a new key at the end, as
  \<^verbatim>\<open>d[k] = v\<close> does, and \<open>map_of\<close> is \<^verbatim>\<open>d.get(k, None)\<close>.
  Exceptions are values of the type \<open>error\<close>; a function that can raise returns
  \<open>error + 'a\<close> with \<open>Inl\<close> for the exception.
\<close>

datatype error =
    KeyError string
  | ValueError
  | IndexError
  | RuntimeError

text \<open>
  A tensor read from a checkpoint or held as a weight: its shape and its elements in
  row-major order. Elements are real numbers; device placement and the rounding of a
  \<^verbatim>\<open>dtype\<close> cast are not represented, so \<^verbatim>\<open>.to(device=..., dtype=...)\<close> and
  \<^verbatim>\<open>requires_grad_(False)\<close> leave a tensor as it is.
\<close>

record tensor =
  shape :: "nat list"
  data :: "real list"

definition tensor_to :: "string \<Rightarrow> string \<Rightarrow> tensor \<Rightarrow> tensor" where
  "tensor_to dev dt t = t"

text \<open>\<^verbatim>\<open>Tensor.item()\<close>: the single element of a one-element tensor, a failure otherwise.\<close>

definition item :: "tensor \<Rightarrow> error + real" where
  "item t = (case data t of [x] \<Rightarrow> Inr x | _ \<Rightarrow> Inl RuntimeError)"

text \<open>\<^verbatim>\<open>t.shape[i]\<close>: indexing the shape tuple raises \<^verbatim>\<open>IndexError\<close> out of range.\<close>

definition shape_at :: "tensor \<Rightarrow> nat \<Rightarrow> error + nat" where
  "shape_at t i = (if i < length (shape t) then Inr (shape t ! i) else Inl IndexError)"

subsection \<open>Strings\<close>

definition startswith :: "string \<Rightarrow> string \<Rightarrow> bool" where
  "startswith s p = (take (length p) s = p)"

definition endswith :: "string \<Rightarrow> string \<Rightarrow> bool" where
  "endswith s p = (length p \<le> length s \<and> drop (length s - length p) s = p)"

text \<open>\<^verbatim>\<open>p in s\<close> for strings: \<open>p\<close> occurs in \<open>s\<close> as a contiguous run.\<close>

fun contains :: "string \<Rightarrow> string \<Rightarrow> bool" where
  "contains [] p = (p = [])"
| "contains (c # s) p = (startswith (c # s) p \<or> contains s p)"

text \<open>
  \<^verbatim>\<open>stem, leaf = key.split(".", 1)\<close>: the key is cut at its first dot; a key with no dot
  gives a one-element list, and unpacking it into two names raises \<^verbatim>\<open>ValueError\<close>.
\<close>

definition split_key :: "string \<Rightarrow> error + (string \<times> string)" where
  "split_key key =
     (case dropWhile (\<lambda>c. c \<noteq> CHR ''.'') key of
        [] \<Rightarrow> Inl ValueError
      | _ # leaf \<Rightarrow> Inr (takeWhile (\<lambda>c. c \<noteq> CHR ''.'') key, leaf))"

text \<open>\<^verbatim>\<open>s.replace(".", "_")\<close>\<close>

definition replace_dots :: "string \<Rightarrow> string" where
  "replace_dots s = map (\<lambda>c. if c = CHR ''.'' then CHR ''_'' else c) s"

subsection \<open>Torch modules\<close>

text \<open>
  A sub-module of one of the two networks, or a sub-transform built by the parser. The
  code tells modules apart by \<^verbatim>\<open>type(m) == torch.nn.Conv2d\<close>, \<^verbatim>\<open>type(m) == torch.nn.Linear\<close>
  and by the class name; a class that is neither of the two torch classes carries its name.
  The convolution attributes are read by the code only where it has found a convolution.
\<close>

datatype module_class = TorchConv2d | TorchLinear | OtherClass string

fun class_name :: "module_class \<Rightarrow> string" where
  "class_name TorchConv2d = ''Conv2d''"
| "class_name TorchLinear = ''Linear''"
| "class_name (OtherClass n) = n"

record nn_module =
  module_class :: module_class
  kernel_size :: "nat \<times> nat"
  stride :: "nat \<times> nat"
  padding :: "nat \<times> nat"
  dilation :: "nat \<times> nat"
  groups :: nat
  weight :: tensor
  bias :: "tensor option"

text \<open>
  \<^verbatim>\<open>torch.nn.Conv2d(in, out, kernel_size, stride, padding, bias=False)\<close> and
  \<^verbatim>\<open>torch.nn.Linear(in, out, bias=False)\<close>: the weight has the shape the constructor
  fixes; its initial elements are overwritten by the copy that follows and stand as zeros.
\<close>

definition zeros :: "nat list \<Rightarrow> tensor" where
  "zeros shp = \<lparr>shape = shp, data = replicate (prod_list shp) 0\<rparr>"

definition Conv2d :: "nat \<Rightarrow> nat \<Rightarrow> nat \<times> nat \<Rightarrow> nat \<times> nat \<Rightarrow> nat \<times> nat \<Rightarrow> nn_module" where
  "Conv2d in_channels out_channels ks st pad =
     \<lparr>module_class = TorchConv2d, kernel_size = ks, stride = st, padding = pad,
      dilation = (1, 1), groups = 1,
      weight = zeros [out_channels, in_channels, fst ks, snd ks], bias = None\<rparr>"

definition Linear :: "nat \<Rightarrow> nat \<Rightarrow> nn_module" where
  "Linear in_features out_features =
     \<lparr>module_class = TorchLinear, kernel_size = (1, 1), stride = (1, 1), padding = (0, 0),
      dilation = (1, 1), groups = 1,
      weight = zeros [out_features, in_features], bias = None\<rparr>"

text \<open>
  \<^verbatim>\<open>dst.copy_(src)\<close> needs \<open>src\<close> broadcastable to the shape of \<open>dst\<close>: with the shapes
  aligned at their last dimension, every dimension of \<open>src\<close> is that of \<open>dst\<close> or 1, and
  \<open>src\<close> has no more dimensions than \<open>dst\<close>. Otherwise torch raises.
\<close>

fun broadcastable_rev :: "nat list \<Rightarrow> nat list \<Rightarrow> bool" where
  "broadcastable_rev [] ds = True"
| "broadcastable_rev (s # ss) [] = False"
| "broadcastable_rev (s # ss) (d # ds) = ((s = d \<or> s = 1) \<and> broadcastable_rev ss ds)"

definition broadcastable :: "nat list \<Rightarrow> nat list \<Rightarrow> bool" where
  "broadcastable src dst = broadcastable_rev (rev src) (rev dst)"

fun expand_data :: "nat list \<Rightarrow> nat list \<Rightarrow> real list \<Rightarrow> real list" where
  "expand_data (s # ss) (d # ds) xs =
     (let n = prod_list ss;
          parts = concat (map (\<lambda>i. expand_data ss ds (take n (drop (i * n) xs))) [0..<s])
      in if s = d then parts else concat (replicate d parts))"
| "expand_data ss ds xs = xs"

definition expand :: "tensor \<Rightarrow> nat list \<Rightarrow> tensor" where
  "expand t shp =
     \<lparr>shape = shp,
      data = expand_data (replicate (length shp - length (shape t)) 1 @ shape t) shp (data t)\<rparr>"

definition weight_copy :: "nn_module \<Rightarrow> tensor \<Rightarrow> error + nn_module" where
  "weight_copy m src =
     (if broadcastable (shape src) (shape (weight m))
      then Inr (m\<lparr>weight := expand src (shape (weight m))\<rparr>)
      else Inl RuntimeError)"

definition module_to :: "string \<Rightarrow> string \<Rightarrow> nn_module \<Rightarrow> nn_module" where
  "module_to dev dt m = m\<lparr>weight := tensor_to dev dt (weight m)\<rparr>"

subsection \<open>Layer deltas and adapters\<close>

text \<open>
  \<^verbatim>\<open>LoRALayer\<close> and \<^verbatim>\<open>LoHALayer\<close>. Both constructors compute
  \<^verbatim>\<open>self.scale = alpha / rank if (alpha and rank) else 1.0\<close>, where \<open>None\<close> and zero are
  false. The attribute \<^verbatim>\<open>name\<close> of a layer is \<open>layer_name\<close> here, since the adapter
  has a \<open>name\<close> too.
\<close>

definition compute_scale :: "nat option \<Rightarrow> real option \<Rightarrow> real" where
  "compute_scale rank alpha =
     (case alpha of
        None \<Rightarrow> 1
      | Some a \<Rightarrow>
          (case rank of
             None \<Rightarrow> 1
           | Some r \<Rightarrow> if a \<noteq> 0 \<and> r \<noteq> 0 then a / real r else 1))"

datatype layer =
    LoRALayer (lora_name: string) (layer_name: string) (scale: real)
      (up: nn_module) (mid: "nn_module option") (down: nn_module)
  | LoHALayer (lora_name: string) (layer_name: string) (scale: real)
      (w1_a: tensor) (w1_b: tensor) (w2_a: tensor) (w2_b: tensor)
      (t1: "tensor option") (t2: "tensor option") (org_module: nn_module)

text \<open>
  The adapter, class \<^verbatim>\<open>LoRA\<close>. Its reference to the registry is passed to
  \<open>load_from_dict\<close> as an argument, since the registry in turn holds the adapters.
\<close>

record LoRA =
  name :: string
  layers :: "(string \<times> layer) list"
  multiplier :: real
  device :: string
  dtype :: string
  rank :: "nat option"
  alpha :: "real option"

definition LoRA_init :: "string \<Rightarrow> string \<Rightarrow> string \<Rightarrow> real \<Rightarrow> LoRA" where
  "LoRA_init nm dev dt mult =
     \<lparr>name = nm, layers = [], multiplier = mult, device = dev, dtype = dt,
      rank = None, alpha = None\<rparr>"

text \<open>The registry, class \<^verbatim>\<open>LoRAModuleWrapper\<close>. A hook handle records the identity of
  the module it is installed on and the identifier the hook was made for.\<close>

record LoRAModuleWrapper =
  hooks :: "(nat \<times> string) list"
  text_modules :: "(string \<times> nn_module) list"
  unet_modules :: "(string \<times> nn_module) list"
  applied_loras :: "(string \<times> LoRA) list"
  loaded_loras :: "(string \<times> LoRA) list"

definition LORA_PREFIX_UNET :: string where
  "LORA_PREFIX_UNET = ''lora_unet''"

definition LORA_PREFIX_TEXT_ENCODER :: string where
  "LORA_PREFIX_TEXT_ENCODER = ''lora_te''"

definition UNET_TARGET_REPLACE_MODULE :: "string list" where
  "UNET_TARGET_REPLACE_MODULE =
     [''Transformer2DModel'', ''Attention'', ''ResnetBlock2D'', ''Downsample2D'',
      ''Upsample2D'', ''SpatialTransformer'']"

definition TEXT_ENCODER_TARGET_REPLACE_MODULE :: "string list" where
  "TEXT_ENCODER_TARGET_REPLACE_MODULE = [''ResidualAttentionBlock'', ''CLIPAttention'', ''CLIPMLP'']"

section \<open>Adapter parsing: \<^verbatim>\<open>LoRA.load_from_dict\<close>\<close>

text \<open>Sequencing of steps that may raise, and \<^verbatim>\<open>d[k]\<close> on a dictionary.\<close>

definition bnd :: "error + 'a \<Rightarrow> ('a \<Rightarrow> error + 'b) \<Rightarrow> error + 'b" where
  "bnd m f = (case m of Inl e \<Rightarrow> Inl e | Inr x \<Rightarrow> f x)"

definition getitem :: "(string \<times> 'a) list \<Rightarrow> string \<Rightarrow> error + 'a" where
  "getitem d k = (case map_of d k of None \<Rightarrow> Inl (KeyError k) | Some v \<Rightarrow> Inr v)"

type_synonym state_dict = "(string \<times> tensor) list"

type_synonym groupped = "(string \<times> (string \<times> tensor) list) list"

text \<open>
  The first loop of \<^verbatim>\<open>load_from_dict\<close> (source lines 233 to 256): it groups the leaves by
  stem (\<open>add_leaf\<close> is lines 235 to 237) and records the adapter-wide \<open>alpha\<close> and \<open>rank\<close>. The arguments after the items
  still to visit are \<^verbatim>\<open>state_dict_groupped\<close>, the adapter and \<^verbatim>\<open>is_loha\<close>.
\<close>

definition add_leaf :: "groupped \<Rightarrow> string \<Rightarrow> string \<Rightarrow> tensor \<Rightarrow> groupped" where
  "add_leaf g stem leaf value =
     AList.update stem
       (AList.update leaf value (case map_of g stem of None \<Rightarrow> [] | Some d \<Rightarrow> d)) g"

fun group_keys :: "state_dict \<Rightarrow> groupped \<Rightarrow> LoRA \<Rightarrow> bool \<Rightarrow> error + (groupped \<times> LoRA \<times> bool)" where
  "group_keys [] g self is_loha = Inr (g, self, is_loha)"
| "group_keys ((key, value) # rest) g self is_loha =
     (case split_key key of
        Inl e \<Rightarrow> Inl e
      | Inr (stem, leaf) \<Rightarrow>
          (let g' = add_leaf g stem leaf value
           in if endswith leaf ''alpha'' then
                (if alpha self = None then
                   (case item value of
                      Inl e \<Rightarrow> Inl e
                    | Inr a \<Rightarrow> group_keys rest g' (self\<lparr>alpha := Some a\<rparr>) is_loha)
                 else group_keys rest g' self is_loha)
              else
                group_keys rest g'
                  (if (startswith stem LORA_PREFIX_TEXT_ENCODER \<or> startswith stem LORA_PREFIX_UNET)
                      \<and> rank self = None \<and> leaf = ''lora_down.weight''
                      \<and> length (shape value) = 2
                   then self\<lparr>rank := Some (shape value ! 0)\<rparr> else self)
                  (if contains leaf ''hada_t1'' then True else is_loha)))"

text \<open>What the second loop prints, in order.\<close>

datatype message =
    MissingLayer string
  | PrintStem string
  | PrintKeys "string list"
  | UnknownModule string string string

text \<open>
  \<^verbatim>\<open>alpha = None; if "alpha" in values: alpha = values["alpha"].item()\<close>
  (lines 315 to 317 and 328 to 330).
\<close>

definition local_alpha :: "(string \<times> tensor) list \<Rightarrow> error + real option" where
  "local_alpha values =
     (case map_of values ''alpha'' of
        None \<Rightarrow> Inr None
      | Some t \<Rightarrow> bnd (item t) (\<lambda>a. Inr (Some a)))"

text \<open>
  Lines 280 to 299: the sub-transforms for a patched convolution or linear layer; \<open>None\<close>
  stands for the branch that prints the unknown module and returns.
\<close>

definition make_sub_layers ::
  "nn_module \<Rightarrow> tensor \<Rightarrow> tensor option \<Rightarrow> tensor
     \<Rightarrow> error + (nn_module \<times> nn_module option \<times> nn_module) option" where
  "make_sub_layers wrapped value_down value_mid value_up =
     (if module_class wrapped = TorchConv2d then
        bnd (case value_mid of
               Some vm \<Rightarrow>
                 bnd (shape_at value_down 1) (\<lambda>d1. bnd (shape_at value_down 0) (\<lambda>d0.
                 bnd (shape_at vm 1) (\<lambda>m1. bnd (shape_at vm 0) (\<lambda>m0.
                   Inr (Conv2d d1 d0 (1, 1) (1, 1) (0, 0),
                        Some (Conv2d m1 m0 (kernel_size wrapped) (stride wrapped) (padding wrapped)))))))
             | None \<Rightarrow>
                 bnd (shape_at value_down 1) (\<lambda>d1. bnd (shape_at value_down 0) (\<lambda>d0.
                   Inr (Conv2d d1 d0 (kernel_size wrapped) (stride wrapped) (padding wrapped), None))))
          (\<lambda>(layer_down, layer_mid).
             bnd (shape_at value_up 1) (\<lambda>u1. bnd (shape_at value_up 0) (\<lambda>u0.
               Inr (Some (layer_down, layer_mid, Conv2d u1 u0 (1, 1) (1, 1) (0, 0))))))
      else if module_class wrapped = TorchLinear then
        bnd (shape_at value_down 1) (\<lambda>d1. bnd (shape_at value_down 0) (\<lambda>d0.
        bnd (shape_at value_up 1) (\<lambda>u1. bnd (shape_at value_up 0) (\<lambda>u0.
          Inr (Some (Linear d1 d0, None, Linear u1 u0))))))
      else Inr None)"

text \<open>
  Lines 275 to 323, the branch \<^verbatim>\<open>"lora_down.weight" in values\<close>. The layer is
  \<^verbatim>\<open>LoRALayer(self.name, stem, self.rank, alpha)\<close> with the local \<open>alpha\<close>.
\<close>

definition make_lora_layer ::
  "LoRA \<Rightarrow> string \<Rightarrow> (string \<times> tensor) list \<Rightarrow> nn_module \<Rightarrow> error + layer option" where
  "make_lora_layer self stem values wrapped =
     bnd (getitem values ''lora_down.weight'') (\<lambda>value_down.
     bnd (getitem values ''lora_up.weight'') (\<lambda>value_up.
     bnd (make_sub_layers wrapped value_down (map_of values ''lora_mid.weight'') value_up) (\<lambda>made.
       case made of
         None \<Rightarrow> Inr None
       | Some (layer_down, layer_mid, layer_up) \<Rightarrow>
           bnd (weight_copy layer_down value_down) (\<lambda>layer_down.
           bnd (case layer_mid of
                  None \<Rightarrow> Inr None
                | Some lm \<Rightarrow>
                    (case map_of values ''lora_mid.weight'' of
                       None \<Rightarrow> Inl RuntimeError
                     | Some value_mid \<Rightarrow> bnd (weight_copy lm value_mid) (\<lambda>lm'. Inr (Some lm'))))
             (\<lambda>layer_mid.
           bnd (weight_copy layer_up value_up) (\<lambda>layer_up.
           bnd (local_alpha values) (\<lambda>alpha.
             Inr (Some (LoRALayer (name self) stem (compute_scale (rank self) alpha)
                          (module_to (device self) (dtype self) layer_up)
                          (map_option (module_to (device self) (dtype self)) layer_mid)
                          (module_to (device self) (dtype self) layer_down))))))))))"

text \<open>Lines 326 to 348, the branch \<^verbatim>\<open>"hada_w1_b" in values\<close>.\<close>

definition make_loha_layer ::
  "LoRA \<Rightarrow> string \<Rightarrow> (string \<times> tensor) list \<Rightarrow> nn_module \<Rightarrow> error + layer" where
  "make_loha_layer self stem values wrapped =
     bnd (local_alpha values) (\<lambda>alpha.
     bnd (getitem values ''hada_w1_b'') (\<lambda>b. bnd (shape_at b 0) (\<lambda>rank.
     bnd (getitem values ''hada_w1_a'') (\<lambda>w1a.
     bnd (getitem values ''hada_w1_b'') (\<lambda>w1b.
     bnd (getitem values ''hada_w2_a'') (\<lambda>w2a.
     bnd (getitem values ''hada_w2_b'') (\<lambda>w2b.
     bnd (if module_class wrapped = TorchConv2d \<and> kernel_size wrapped \<noteq> (1, 1) then
            bnd (getitem values ''hada_t1'') (\<lambda>c1.
            bnd (getitem values ''hada_t2'') (\<lambda>c2.
              Inr (Some (tensor_to (device self) (dtype self) c1),
                   Some (tensor_to (device self) (dtype self) c2))))
          else Inr (None, None))
       (\<lambda>(c1, c2).
          Inr (LoHALayer (name self) stem (compute_scale (Some rank) alpha)
                 (tensor_to (device self) (dtype self) w1a)
                 (tensor_to (device self) (dtype self) w1b)
                 (tensor_to (device self) (dtype self) w2a)
                 (tensor_to (device self) (dtype self) w2b)
                 c1 c2 wrapped)))))))))"

text \<open>
  Lines 260 to 269 look the stem up: with the text-encoder prefix in \<open>text_modules\<close>,
  else with the backbone prefix in \<open>unet_modules\<close>, else the group is passed over.
  Then one turn of the second loop (lines 259 to 356) on a group \<open>(stem, values)\<close>. The state
  is the adapter and what has been printed. \<open>Continue\<close> goes on with the next group
  (after a \<^verbatim>\<open>continue\<close> or at the end of the body), \<open>Return\<close> is the \<^verbatim>\<open>return\<close> that
  leaves \<^verbatim>\<open>load_from_dict\<close>.
\<close>

datatype 'a flow = Continue 'a | Return 'a

datatype lookup = NoPrefix | Missing | Wrapped nn_module

definition find_wrapped :: "LoRAModuleWrapper \<Rightarrow> string \<Rightarrow> lookup" where
  "find_wrapped wrapper stem =
     (if startswith stem LORA_PREFIX_TEXT_ENCODER then
        (case map_of (text_modules wrapper) stem of None \<Rightarrow> Missing | Some m \<Rightarrow> Wrapped m)
      else if startswith stem LORA_PREFIX_UNET then
        (case map_of (unet_modules wrapper) stem of None \<Rightarrow> Missing | Some m \<Rightarrow> Wrapped m)
      else NoPrefix)"

definition process_group ::
  "LoRAModuleWrapper \<Rightarrow> LoRA \<times> message list \<Rightarrow> string \<times> (string \<times> tensor) list
     \<Rightarrow> error + (LoRA \<times> message list) flow" where
  "process_group wrapper st grp =
     (case st of (self, out) \<Rightarrow> case grp of (stem, values) \<Rightarrow>
        (case find_wrapped wrapper stem of
           NoPrefix \<Rightarrow> Inr (Continue (self, out))
         | Missing \<Rightarrow> Inr (Continue (self, out @ [MissingLayer stem]))
         | Wrapped wrapped \<Rightarrow>
             (let out' = out @ [PrintStem stem, PrintKeys (map fst values)];
                  unknown = UnknownModule (name self) stem (class_name (module_class wrapped))
              in if map_of values ''lora_down.weight'' \<noteq> None then
                   bnd (make_lora_layer self stem values wrapped) (\<lambda>made.
                     case made of
                       None \<Rightarrow> Inr (Return (self, out' @ [unknown]))
                     | Some layer \<Rightarrow>
                         Inr (Continue (self\<lparr>layers := AList.update stem layer (layers self)\<rparr>, out')))
                 else if map_of values ''hada_w1_b'' \<noteq> None then
                   bnd (make_loha_layer self stem values wrapped) (\<lambda>layer.
                     Inr (Continue (self\<lparr>layers := AList.update stem layer (layers self)\<rparr>, out')))
                 else Inr (Return (self, out' @ [unknown])))))"

fun process_groups ::
  "LoRAModuleWrapper \<Rightarrow> LoRA \<times> message list \<Rightarrow> groupped \<Rightarrow> error + (LoRA \<times> message list) flow" where
  "process_groups wrapper st [] = Inr (Continue st)"
| "process_groups wrapper st (grp # rest) =
     (case process_group wrapper st grp of
        Inl e \<Rightarrow> Inl e
      | Inr (Return st') \<Rightarrow> Inr (Return st')
      | Inr (Continue st') \<Rightarrow> process_groups wrapper st' rest)"

text \<open>
  \<^verbatim>\<open>load_from_dict\<close> returns nothing, whether the second loop ran to its end or left by
  \<^verbatim>\<open>return\<close>: the caller sees the adapter as it then is (and the printed lines), or the
  exception.
\<close>

definition state_of :: "'a flow \<Rightarrow> 'a" where
  "state_of r = (case r of Continue st \<Rightarrow> st | Return st \<Rightarrow> st)"

definition load_from_dict ::
  "LoRAModuleWrapper \<Rightarrow> LoRA \<Rightarrow> state_dict \<Rightarrow> error + (LoRA \<times> message list)" where
  "load_from_dict wrapper self state_dict =
     bnd (group_keys state_dict [] self False) (\<lambda>(state_dict_groupped, self', is_loha).
     bnd (process_groups wrapper (self', []) state_dict_groupped) (\<lambda>r. Inr (state_of r)))"

section \<open>Patchable-layer discovery: \<^verbatim>\<open>find_modules\<close>\<close>

text \<open>
  A network is a tree of named sub-modules. \<open>ident\<close> is the identity of the module object:
  \<^verbatim>\<open>named_modules\<close> keeps a memo of the objects it has yielded and yields no object twice
  within one call. It yields the module itself under the prefix, then the sub-modules of
  each child under \<^verbatim>\<open>prefix + ('.' if prefix else '') + name\<close>.
\<close>

datatype module_tree =
  Module (ident: nat) (info: nn_module) (children: "(string \<times> module_tree) list")

fun named_modules ::
      "module_tree \<Rightarrow> nat list \<Rightarrow> string \<Rightarrow> (string \<times> module_tree) list \<times> nat list"
  and named_children ::
      "(string \<times> module_tree) list \<Rightarrow> nat list \<Rightarrow> string \<Rightarrow> (string \<times> module_tree) list \<times> nat list"
where
  "named_modules (Module i m cs) memo prefix =
     (if i \<in> set memo then ([], memo)
      else (case named_children cs (i # memo) prefix of
              (ys, memo') \<Rightarrow> ((prefix, Module i m cs) # ys, memo')))"
| "named_children [] memo prefix = ([], memo)"
| "named_children ((n, t) # cs) memo prefix =
     (case named_modules t memo (prefix @ (if prefix = [] then [] else ''.'') @ n) of
        (ys, memo') \<Rightarrow>
          (case named_children cs memo' prefix of
             (zs, memo'') \<Rightarrow> (ys @ zs, memo'')))"

text \<open>
  \<^verbatim>\<open>apply_module_forward(module, name)\<close> registers the hook made for \<open>name\<close> on the module
  and appends the handle to \<^verbatim>\<open>self.hooks\<close>.
\<close>

definition apply_module_forward :: "(nat \<times> string) list \<Rightarrow> module_tree \<Rightarrow> string \<Rightarrow> (nat \<times> string) list" where
  "apply_module_forward hks module' nm = hks @ [(ident module', nm)]"

text \<open>
  The body of the inner loop of \<^verbatim>\<open>find_modules\<close> (lines 155 to 163) on one
  \<open>(child_name, child_module)\<close>; the state is \<open>mapping\<close> and the registry's \<open>hooks\<close>.
\<close>

definition collect_child ::
  "string \<Rightarrow> string \<Rightarrow> (string \<times> nn_module) list \<times> (nat \<times> string) list \<Rightarrow> string \<times> module_tree
     \<Rightarrow> (string \<times> nn_module) list \<times> (nat \<times> string) list" where
  "collect_child prefix nm st child =
     (case st of (mapping, hks) \<Rightarrow> case child of (child_name, child_module) \<Rightarrow>
        (let layer_type = class_name (module_class (info child_module))
         in if layer_type = ''Linear''
               \<or> (layer_type = ''Conv2d''
                   \<and> kernel_size (info child_module) \<in> set [(1, 1), (3, 3)])
            then (let lora_name = replace_dots (prefix @ ''.'' @ nm @ ''.'' @ child_name)
                  in (AList.update lora_name (info child_module) mapping,
                      apply_module_forward hks child_module lora_name))
            else (mapping, hks)))"

definition find_modules ::
  "(nat \<times> string) list \<Rightarrow> string \<Rightarrow> module_tree \<Rightarrow> string list
     \<Rightarrow> (string \<times> nn_module) list \<times> (nat \<times> string) list" where
  "find_modules hks prefix root_module target_replace_modules =
     foldl (\<lambda>st (nm, module').
              if class_name (module_class (info module')) \<in> set target_replace_modules
              then foldl (collect_child prefix nm) st (fst (named_modules module' [] []))
              else st)
       ([], hks) (fst (named_modules root_module [] []))"

text \<open>\<^verbatim>\<open>LoRAModuleWrapper.__init__(unet, text_encoder)\<close>: the text encoder is walked first.\<close>

definition LoRAModuleWrapper_init :: "module_tree \<Rightarrow> module_tree \<Rightarrow> LoRAModuleWrapper" where
  "LoRAModuleWrapper_init unet text_encoder =
     (case find_modules [] LORA_PREFIX_TEXT_ENCODER text_encoder TEXT_ENCODER_TARGET_REPLACE_MODULE of
        (tm, hks) \<Rightarrow>
          (case find_modules hks LORA_PREFIX_UNET unet UNET_TARGET_REPLACE_MODULE of
             (um, hks') \<Rightarrow>
               \<lparr>hooks = hks', text_modules = tm, unet_modules = um,
                applied_loras = [], loaded_loras = []\<rparr>))"

section \<open>Forward contribution\<close>

text \<open>
  The values that flow through a patched layer (its input, its output, what a
  sub-transform returns) are elements of a real vector space \<open>'t\<close>: \<open>+\<close> is the addition of
  tensors and \<open>t * c\<close> for a Python float \<open>c\<close> is \<open>c *\<^sub>R t\<close>. The arithmetic is exact; the
  rounding of floating-point numbers is not represented.

  The operations of the torch library are parameters, gathered in a record: calling a
  module, \<^verbatim>\<open>torch.nn.functional.linear\<close> and \<^verbatim>\<open>conv2d\<close>, and on weights \<^verbatim>\<open>@\<close>, \<^verbatim>\<open>*\<close>,
  \<^verbatim>\<open>+\<close>, \<^verbatim>\<open>reshape\<close>, \<^verbatim>\<open>view\<close> and \<^verbatim>\<open>torch.einsum\<close>. They are total functions, so a failure
  inside torch (mismatched shapes) is outside this model. \<open>einsum\<close> takes its first operand
  as the source passes it, an optional tensor.
\<close>

record 't torch =
  module_call :: "nn_module \<Rightarrow> 't list \<Rightarrow> 't"
  F_linear :: "'t list \<Rightarrow> tensor \<Rightarrow> tensor option \<Rightarrow> 't"
  F_conv2d :: "'t list \<Rightarrow> tensor \<Rightarrow> tensor option
                 \<Rightarrow> nat \<times> nat \<Rightarrow> nat \<times> nat \<Rightarrow> nat \<times> nat \<Rightarrow> nat \<Rightarrow> 't"
  matmul :: "tensor \<Rightarrow> tensor \<Rightarrow> tensor"
  tensor_mul :: "tensor \<Rightarrow> tensor \<Rightarrow> tensor"
  tensor_add :: "tensor \<Rightarrow> tensor \<Rightarrow> tensor"
  reshape :: "tensor \<Rightarrow> nat list \<Rightarrow> tensor"
  view :: "tensor \<Rightarrow> nat list \<Rightarrow> tensor"
  einsum :: "string \<Rightarrow> tensor option \<Rightarrow> tensor \<Rightarrow> tensor \<Rightarrow> tensor"

definition times_float :: "'t::real_vector \<Rightarrow> real \<Rightarrow> 't" where
  "times_float t c = c *\<^sub>R t"

text \<open>\<^verbatim>\<open>LoRALayer.forward(self, lora, input_h, output)\<close>, lines 33 to 44.\<close>

definition LoRALayer_forward ::
  "('t::real_vector) torch \<Rightarrow> layer \<Rightarrow> LoRA \<Rightarrow> 't list \<Rightarrow> 't \<Rightarrow> 't" where
  "LoRALayer_forward T self lora input_h output =
     (case mid self of
        None \<Rightarrow>
          output
          + times_float
              (times_float (module_call T (up self) [module_call T (down self) input_h])
                 (multiplier lora))
              (scale self)
      | Some mid_module \<Rightarrow>
          output
          + times_float
              (times_float
                 (module_call T (up self)
                    [module_call T mid_module [module_call T (down self) input_h]])
                 (multiplier lora))
              (scale self))"

text \<open>
  \<^verbatim>\<open>LoHALayer.forward(self, lora, input_h, output)\<close>, lines 65 to 99: the statements up to
  the \<^verbatim>\<open>return\<close> of line 94. What follows that \<^verbatim>\<open>return\<close> in the source is never run.
\<close>

definition LoHALayer_forward ::
  "('t::real_vector) torch \<Rightarrow> layer \<Rightarrow> LoRA \<Rightarrow> 't list \<Rightarrow> 't \<Rightarrow> 't" where
  "LoHALayer_forward T self lora input_h output =
     (let weight' =
            (if t1 self = None then
               (let diff_weight =
                      tensor_mul T (matmul T (w1_a self) (w1_b self))
                                   (matmul T (w2_a self) (w2_b self))
                in tensor_add T (reshape T (weight (org_module self)) (shape diff_weight))
                     diff_weight)
             else
               (let rebuild1 = einsum T ''i j k l, j r, i p -> p r k l''
                                 (t1 self) (w1_b self) (w1_a self);
                    rebuild2 = einsum T ''i j k l, j r, i p -> p r k l''
                                 (t2 self) (w2_b self) (w2_a self)
                in tensor_add T (weight (org_module self)) (tensor_mul T rebuild1 rebuild2)));
          bias' = bias (org_module self);
          applied =
            (if module_class (org_module self) = TorchConv2d then
               F_conv2d T input_h (view T weight' (shape (weight (org_module self)))) bias'
                 (stride (org_module self)) (padding (org_module self))
                 (dilation (org_module self)) (groups (org_module self))
             else
               F_linear T input_h (view T weight' (shape (weight (org_module self)))) bias')
      in output + times_float (times_float applied (multiplier lora)) (scale self))"

text \<open>\<^verbatim>\<open>layer.forward(lora, input_h, output)\<close> is the method of the layer's class.\<close>

definition forward :: "('t::real_vector) torch \<Rightarrow> layer \<Rightarrow> LoRA \<Rightarrow> 't list \<Rightarrow> 't \<Rightarrow> 't" where
  "forward T self lora input_h output =
     (case self of
        LoRALayer _ _ _ _ _ _ \<Rightarrow> LoRALayer_forward T self lora input_h output
      | LoHALayer _ _ _ _ _ _ _ _ _ _ \<Rightarrow> LoHALayer_forward T self lora input_h output)"

text \<open>
  The hook \<^verbatim>\<open>lora_forward(module, input_h, output)\<close> made by \<^verbatim>\<open>lora_forward_hook(name)\<close>,
  lines 182 to 191. The module argument is not used by the source and is left out.
  \<open>hook_step\<close> is the body of the loop over \<^verbatim>\<open>wrapper.applied_loras.values()\<close>.
\<close>

definition hook_step :: "('t::real_vector) torch \<Rightarrow> string \<Rightarrow> 't list \<Rightarrow> 't \<Rightarrow> LoRA \<Rightarrow> 't" where
  "hook_step T nm input_h output lora =
     (case map_of (layers lora) nm of
        None \<Rightarrow> output
      | Some layer \<Rightarrow> forward T layer lora input_h output)"

definition lora_forward ::
  "('t::real_vector) torch \<Rightarrow> LoRAModuleWrapper \<Rightarrow> string \<Rightarrow> 't list \<Rightarrow> 't \<Rightarrow> 't" where
  "lora_forward T wrapper nm input_h output =
     (if length (loaded_loras wrapper) = 0 then output
      else foldl (hook_step T nm input_h) output (map snd (applied_loras wrapper)))"

section \<open>The manager\<close>

text \<open>
  \<^verbatim>\<open>KohyaLoraManager.load_lora_module(name, path_file, multiplier)\<close>, lines 369 to 380.
  Reading the file is the work of \<^verbatim>\<open>load_file\<close> or \<^verbatim>\<open>torch.load\<close>; the mapping they return
  is the argument \<open>checkpoint\<close>.
\<close>

record KohyaLoraManager =
  lora_path :: string
  wrapper :: LoRAModuleWrapper
  manager_device :: string
  manager_dtype :: string

definition load_lora_module ::
  "KohyaLoraManager \<Rightarrow> string \<Rightarrow> state_dict \<Rightarrow> real \<Rightarrow> error + (KohyaLoraManager \<times> LoRA)" where
  "load_lora_module self nm checkpoint mult =
     (let lora = LoRA_init nm (manager_device self) (manager_dtype self) mult
      in bnd (load_from_dict (wrapper self) lora checkpoint) (\<lambda>(lora', out).
           Inr (self\<lparr>wrapper := (wrapper self)\<lparr>loaded_loras :=
                         AList.update nm lora' (loaded_loras (wrapper self))\<rparr>\<rparr>,
                lora')))"

section \<open>Notions used in the statements\<close>

text \<open>
  The groups that the first loop builds, without the scalars it records on the way: a key
  with no dot stops that loop, so here it adds nothing.
\<close>

definition grouped :: "state_dict \<Rightarrow> groupped" where
  "grouped state_dict =
     foldl (\<lambda>g (key, value).
              case split_key key of
                Inl e \<Rightarrow> g
              | Inr (stem, leaf) \<Rightarrow> add_leaf g stem leaf value)
       [] state_dict"

text \<open>A stem resolves when the registry has a patchable sub-layer under it.\<close>

definition resolves :: "LoRAModuleWrapper \<Rightarrow> string \<Rightarrow> bool" where
  "resolves W stem = (case find_wrapped W stem of Wrapped m \<Rightarrow> True | _ \<Rightarrow> False)"

text \<open>
  A well-formed low-rank group for a patched module: both weights are there; for a linear
  layer they are matrices; for a convolution they have four dimensions, the kernel of the
  patched layer on the \<open>down\<close> leg (on the \<open>mid\<close> leg when there is one, \<open>down\<close> being
  1 by 1 then) and a 1 by 1 kernel on the \<open>up\<close> leg; a local \<open>alpha\<close> holds one number.
\<close>

definition has_kernel :: "tensor \<Rightarrow> nat \<times> nat \<Rightarrow> bool" where
  "has_kernel t ks = (shape t = [shape t ! 0, shape t ! 1, fst ks, snd ks])"

definition lowrank_group_ok :: "nn_module \<Rightarrow> (string \<times> tensor) list \<Rightarrow> bool" where
  "lowrank_group_ok m values =
     (case map_of values ''lora_down.weight'' of
        None \<Rightarrow> False
      | Some vd \<Rightarrow>
          (case map_of values ''lora_up.weight'' of
             None \<Rightarrow> False
           | Some vu \<Rightarrow>
               (case map_of values ''alpha'' of None \<Rightarrow> True | Some a \<Rightarrow> length (data a) = 1)
               \<and> (if module_class m = TorchConv2d then
                     (case map_of values ''lora_mid.weight'' of
                        None \<Rightarrow> has_kernel vd (kernel_size m)
                      | Some vm \<Rightarrow> has_kernel vd (1, 1) \<and> has_kernel vm (kernel_size m))
                     \<and> has_kernel vu (1, 1)
                   else module_class m = TorchLinear
                        \<and> length (shape vd) = 2 \<and> length (shape vu) = 2)))"

definition well_formed :: "LoRAModuleWrapper \<Rightarrow> state_dict \<Rightarrow> bool" where
  "well_formed W state_dict =
     (list_all (\<lambda>(key, value).
                  case split_key key of
                    Inl e \<Rightarrow> False
                  | Inr (stem, leaf) \<Rightarrow> endswith leaf ''alpha'' \<longrightarrow> length (data value) = 1)
        state_dict
      \<and> list_all (\<lambda>(stem, values).
                    case find_wrapped W stem of
                      Wrapped m \<Rightarrow> lowrank_group_ok m values
                    | _ \<Rightarrow> True)
          (grouped state_dict))"

text \<open>The rank that the constructor of a layer was given.\<close>

definition rank_given :: "LoRA \<Rightarrow> layer \<Rightarrow> nat option" where
  "rank_given lora l =
     (case l of
        LoRALayer _ _ _ _ _ _ \<Rightarrow> rank lora
      | LoHALayer _ _ _ _ b _ _ _ _ _ \<Rightarrow> Some (shape b ! 0))"

text \<open>
  Whether \<^verbatim>\<open>load_from_dict\<close> leaves its second loop by \<^verbatim>\<open>return\<close>, and what a call has
  stored and built, read off the results.
\<close>

definition aborts :: "LoRAModuleWrapper \<Rightarrow> LoRA \<Rightarrow> state_dict \<Rightarrow> bool" where
  "aborts W self state_dict =
     (case group_keys state_dict [] self False of
        Inl e \<Rightarrow> False
      | Inr (g, self', is_loha) \<Rightarrow>
          (case process_groups W (self', []) g of
             Inr (Return st) \<Rightarrow> True
           | _ \<Rightarrow> False))"

definition stored_layers :: "error + (KohyaLoraManager \<times> LoRA) \<Rightarrow> string \<Rightarrow> string list option" where
  "stored_layers r nm =
     (case r of
        Inl e \<Rightarrow> None
      | Inr (mgr, lora) \<Rightarrow>
          map_option (\<lambda>l. map fst (layers l)) (map_of (loaded_loras (wrapper mgr)) nm))"

definition parsed_alpha :: "error + (LoRA \<times> message list) \<Rightarrow> real option" where
  "parsed_alpha r = (case r of Inl e \<Rightarrow> None | Inr (lora, out) \<Rightarrow> alpha lora)"

definition parsed_rank :: "error + (LoRA \<times> message list) \<Rightarrow> nat option" where
  "parsed_rank r = (case r of Inl e \<Rightarrow> None | Inr (lora, out) \<Rightarrow> rank lora)"

definition parsed_scale :: "error + (LoRA \<times> message list) \<Rightarrow> string \<Rightarrow> real option" where
  "parsed_scale r stem =
     (case r of
        Inl e \<Rightarrow> None
      | Inr (lora, out) \<Rightarrow> map_option scale (map_of (layers lora) stem))"

text \<open>
  What the specification says of the Hadamard variant: the reconstructed delta alone,
  reshaped to the weight shape of the patched layer, is applied to the input with the
  convolution parameters of that layer, scaled and added. This is the specification's
  sentence, not the source; it is compared with \<open>LoHALayer_forward\<close> below.
\<close>

definition LoHALayer_delta_only ::
  "('t::real_vector) torch \<Rightarrow> layer \<Rightarrow> LoRA \<Rightarrow> 't list \<Rightarrow> 't \<Rightarrow> 't" where
  "LoHALayer_delta_only T self lora input_h output =
     (let diff_weight =
            (if t1 self = None then
               tensor_mul T (matmul T (w1_a self) (w1_b self)) (matmul T (w2_a self) (w2_b self))
             else
               tensor_mul T
                 (einsum T ''i j k l, j r, i p -> p r k l'' (t1 self) (w1_b self) (w1_a self))
                 (einsum T ''i j k l, j r, i p -> p r k l'' (t2 self) (w2_b self) (w2_a self)));
          applied =
            (if module_class (org_module self) = TorchConv2d then
               F_conv2d T input_h (view T diff_weight (shape (weight (org_module self)))) None
                 (stride (org_module self)) (padding (org_module self))
                 (dilation (org_module self)) (groups (org_module self))
             else
               F_linear T input_h (view T diff_weight (shape (weight (org_module self)))) None)
      in output + times_float (times_float applied (multiplier lora)) (scale self))"

section \<open>Concrete networks, checkpoints and layers\<close>

text \<open>
  A small backbone in which an \<^verbatim>\<open>Attention\<close> block sits inside a \<^verbatim>\<open>Transformer2DModel\<close>
  block, as in the diffusers backbone, and a small text encoder.
\<close>

definition other_module :: "string \<Rightarrow> nn_module" where
  "other_module cls =
     \<lparr>module_class = OtherClass cls, kernel_size = (1, 1), stride = (1, 1), padding = (0, 0),
      dilation = (1, 1), groups = 1, weight = zeros [], bias = None\<rparr>"

definition linear_module :: "nat \<Rightarrow> nat \<Rightarrow> nn_module" where
  "linear_module i out = (Linear i out)\<lparr>bias := Some (zeros [out])\<rparr>"

definition unet0 :: module_tree where
  "unet0 =
     Module 0 (other_module ''UNet2DConditionModel'')
       [(''tb'', Module 1 (other_module ''Transformer2DModel'')
          [(''attn'', Module 2 (other_module ''Attention'')
             [(''to_q'', Module 3 (linear_module 3 3) []),
              (''to_k'', Module 4 (linear_module 3 3) [])])])]"

definition te0 :: module_tree where
  "te0 =
     Module 10 (other_module ''CLIPTextModel'')
       [(''mlp'', Module 11 (other_module ''CLIPMLP'')
          [(''fc1'', Module 12 (linear_module 3 3) [])])]"

definition wrapper0 :: LoRAModuleWrapper where
  "wrapper0 = LoRAModuleWrapper_init unet0 te0"

definition manager0 :: KohyaLoraManager where
  "manager0 =
     \<lparr>lora_path = ''loras'', wrapper = wrapper0, manager_device = ''cpu'',
      manager_dtype = ''float32''\<rparr>"

definition scalar :: "real \<Rightarrow> tensor" where
  "scalar x = \<lparr>shape = [], data = [x]\<rparr>"

text \<open>A low-rank checkpoint: \<open>to_q\<close> with its own \<open>alpha\<close>, \<open>to_k\<close> without, a stem the
  registry does not know and a stem with neither prefix.\<close>

definition checkpoint_ok :: state_dict where
  "checkpoint_ok =
     [(''lora_unet_tb_attn_to_q.alpha'', scalar 8),
      (''lora_unet_tb_attn_to_q.lora_down.weight'', zeros [4, 3]),
      (''lora_unet_tb_attn_to_q.lora_up.weight'', zeros [3, 4]),
      (''lora_unet_gone.lora_down.weight'', zeros [4, 3]),
      (''model.lora_down.weight'', zeros [4, 3]),
      (''lora_unet_tb_attn_to_k.lora_down.weight'', zeros [4, 3]),
      (''lora_unet_tb_attn_to_k.lora_up.weight'', zeros [3, 4])]"

text \<open>A checkpoint whose second group has a leaf of no known format.\<close>

definition checkpoint_bad :: state_dict where
  "checkpoint_bad =
     [(''lora_unet_tb_attn_to_q.lora_down.weight'', zeros [2, 3]),
      (''lora_unet_tb_attn_to_q.lora_up.weight'', zeros [3, 2]),
      (''lora_unet_tb_attn_to_k.foo'', scalar 1),
      (''lora_te_mlp_fc1.lora_down.weight'', zeros [2, 3]),
      (''lora_te_mlp_fc1.lora_up.weight'', zeros [3, 2])]"

text \<open>A checkpoint whose second group has \<open>lora_down.weight\<close> and no \<open>lora_up.weight\<close>.\<close>

definition checkpoint_no_up :: state_dict where
  "checkpoint_no_up =
     [(''lora_unet_tb_attn_to_q.lora_down.weight'', zeros [2, 3]),
      (''lora_unet_tb_attn_to_q.lora_up.weight'', zeros [3, 2]),
      (''lora_unet_tb_attn_to_k.lora_down.weight'', zeros [2, 3])]"

text \<open>What a parse has built and printed, read off its result.\<close>

definition parsed_layers :: "error + (LoRA \<times> message list) \<Rightarrow> string list option" where
  "parsed_layers r = (case r of Inl e \<Rightarrow> None | Inr (lora, out) \<Rightarrow> Some (map fst (layers lora)))"

definition parsed_log :: "error + (LoRA \<times> message list) \<Rightarrow> message list option" where
  "parsed_log r = (case r of Inl e \<Rightarrow> None | Inr (lora, out) \<Rightarrow> Some out)"

text \<open>
  The torch operations where every layer has one input and one output feature, so that a
  value flowing through a layer is one real number and a weight is a 1 by 1 matrix:
  \<open>linear1\<close> is \<^verbatim>\<open>torch.nn.functional.linear\<close> there, \<open>matmul2\<close> the product of two matrices,
  \<open>pointwise\<close> an element-wise operation on tensors of one shape. Convolutions and
  \<open>einsum\<close> are not exercised by the inputs below.
\<close>

definition linear1 :: "real list \<Rightarrow> tensor \<Rightarrow> tensor option \<Rightarrow> real" where
  "linear1 xs w b =
     (case xs of
        [x] \<Rightarrow> x * (data w ! 0) + (case b of None \<Rightarrow> 0 | Some t \<Rightarrow> data t ! 0)
      | _ \<Rightarrow> 0)"

definition matmul2 :: "tensor \<Rightarrow> tensor \<Rightarrow> tensor" where
  "matmul2 a b =
     (let n = shape a ! 0; k = shape a ! 1; m = shape b ! 1
      in \<lparr>shape = [n, m],
          data = concat (map (\<lambda>i. map (\<lambda>j. sum_list (map (\<lambda>l. (data a ! (i * k + l))
                                                                * (data b ! (l * m + j))) [0..<k]))
                                     [0..<m]) [0..<n])\<rparr>)"

definition pointwise :: "(real \<Rightarrow> real \<Rightarrow> real) \<Rightarrow> tensor \<Rightarrow> tensor \<Rightarrow> tensor" where
  "pointwise f a b = \<lparr>shape = shape a, data = map2 f (data a) (data b)\<rparr>"

definition reshaped :: "tensor \<Rightarrow> nat list \<Rightarrow> tensor" where
  "reshaped t shp = \<lparr>shape = shp, data = data t\<rparr>"

definition torch1 :: "real torch" where
  "torch1 =
     \<lparr>module_call = (\<lambda>m xs. linear1 xs (weight m) (bias m)),
      F_linear = linear1,
      F_conv2d = (\<lambda>xs w b st pad dil g. 0),
      matmul = matmul2,
      tensor_mul = pointwise (*),
      tensor_add = pointwise (+),
      reshape = reshaped,
      view = reshaped,
      einsum = (\<lambda>pattern c a b. a)\<rparr>"

definition matrix1 :: "real \<Rightarrow> tensor" where
  "matrix1 x = \<lparr>shape = [1, 1], data = [x]\<rparr>"

definition linear1_module :: "real \<Rightarrow> tensor option \<Rightarrow> nn_module" where
  "linear1_module w b = (Linear 1 1)\<lparr>weight := matrix1 w, bias := b\<rparr>"

text \<open>Two adapters with a low-rank delta for the layer \<open>layer0\<close>, the second with a \<open>mid\<close>
  leg, and a registry in which both are loaded and active.\<close>

definition layer_a :: layer where
  "layer_a = LoRALayer ''a'' ''layer0'' 2 (linear1_module 3 None) None (linear1_module 5 None)"

definition layer_b :: layer where
  "layer_b =
     LoRALayer ''b'' ''layer0'' (1 / 2) (linear1_module 7 None) (Some (linear1_module 2 None))
       (linear1_module 1 None)"

definition lora_a :: LoRA where
  "lora_a = (LoRA_init ''a'' ''cpu'' ''float32'' 2)\<lparr>layers := [(''layer0'', layer_a)]\<rparr>"

definition lora_b :: LoRA where
  "lora_b = (LoRA_init ''b'' ''cpu'' ''float32'' 3)\<lparr>layers := [(''layer0'', layer_b)]\<rparr>"

definition registry0 :: LoRAModuleWrapper where
  "registry0 =
     \<lparr>hooks = [], text_modules = [], unet_modules = [],
      applied_loras = [(''a'', lora_a), (''b'', lora_b)],
      loaded_loras = [(''a'', lora_a), (''b'', lora_b)]\<rparr>"

text \<open>
  A Hadamard delta on a linear layer with weight 2 and bias 1; all four factors are the
  1 by 1 matrix 1, so the reconstructed delta is 1. The adapter has multiplier 1.
\<close>

definition loha_layer0 :: layer where
  "loha_layer0 =
     LoHALayer ''h'' ''layer0'' 1 (matrix1 1) (matrix1 1) (matrix1 1) (matrix1 1) None None
       (linear1_module 2 (Some \<lparr>shape = [1], data = [1]\<rparr>))"

definition lora_h :: LoRA where
  "lora_h = (LoRA_init ''h'' ''cpu'' ''float32'' 1)\<lparr>layers := [(''layer0'', loha_layer0)]\<rparr>"

section \<open>Auxiliary facts\<close>

lemma bnd_Inl: "bnd (Inl e) f = Inl e"
  by (simp add: bnd_def)

lemma bnd_Inr: "bnd (Inr x) f = f x"
  by (simp add: bnd_def)

lemma process_groups_append:
  "process_groups W st (pre @ rest) =
     (case process_groups W st pre of
        Inl e \<Rightarrow> Inl e
      | Inr (Return st') \<Rightarrow> Inr (Return st')
      | Inr (Continue st') \<Rightarrow> process_groups W st' rest)"
  by (induction pre arbitrary: st) (auto split: sum.splits flow.splits)

lemma process_group_unknown:
  assumes "find_wrapped W stem = Wrapped wrapped"
    and "map_of values ''lora_down.weight'' = None"
    and "map_of values ''hada_w1_b'' = None"
  shows "process_group W (self, out) (stem, values) =
           Inr (Return (self, out @ [PrintStem stem, PrintKeys (map fst values),
                  UnknownModule (name self) stem (class_name (module_class wrapped))]))"
  using assms by (simp add: process_group_def Let_def)

lemma process_group_no_up:
  assumes "find_wrapped W stem = Wrapped wrapped"
    and "map_of values ''lora_down.weight'' \<noteq> None"
    and "map_of values ''lora_up.weight'' = None"
  shows "process_group W (self, out) (stem, values) = Inl (KeyError ''lora_up.weight'')"
  using assms
  by (auto simp add: process_group_def Let_def make_lora_layer_def getitem_def bnd_Inl bnd_Inr)

text \<open>The registry of the small networks, evaluated.\<close>

lemma wrapper0_eval:
  "wrapper0 =
     \<lparr>hooks = [(12, ''lora_te_mlp_fc1''), (3, ''lora_unet_tb_attn_to_q''),
               (4, ''lora_unet_tb_attn_to_k''), (3, ''lora_unet_tb_attn_to_q''),
               (4, ''lora_unet_tb_attn_to_k'')],
      text_modules = [(''lora_te_mlp_fc1'', linear_module 3 3)],
      unet_modules = [(''lora_unet_tb_attn_to_q'', linear_module 3 3),
                      (''lora_unet_tb_attn_to_k'', linear_module 3 3)],
      applied_loras = [], loaded_loras = []\<rparr>"
  by (simp add: Let_def wrapper0_def LoRAModuleWrapper_init_def find_modules_def unet0_def
      te0_def collect_child_def apply_module_forward_def replace_dots_def other_module_def
      linear_module_def Linear_def LORA_PREFIX_UNET_def LORA_PREFIX_TEXT_ENCODER_def
      UNET_TARGET_REPLACE_MODULE_def TEXT_ENCODER_TARGET_REPLACE_MODULE_def)

lemma find_wrapped0_to_q:
  "find_wrapped wrapper0 ''lora_unet_tb_attn_to_q'' = Wrapped (linear_module 3 3)"
  by (simp add: wrapper0_eval find_wrapped_def startswith_def LORA_PREFIX_UNET_def
      LORA_PREFIX_TEXT_ENCODER_def)

lemma find_wrapped0_to_k:
  "find_wrapped wrapper0 ''lora_unet_tb_attn_to_k'' = Wrapped (linear_module 3 3)"
  by (simp add: wrapper0_eval find_wrapped_def startswith_def LORA_PREFIX_UNET_def
      LORA_PREFIX_TEXT_ENCODER_def)

lemma find_wrapped0_fc1:
  "find_wrapped wrapper0 ''lora_te_mlp_fc1'' = Wrapped (linear_module 3 3)"
  by (simp add: wrapper0_eval find_wrapped_def startswith_def LORA_PREFIX_UNET_def
      LORA_PREFIX_TEXT_ENCODER_def)

lemma find_wrapped0_gone: "find_wrapped wrapper0 ''lora_unet_gone'' = Missing"
  by (simp add: wrapper0_eval find_wrapped_def startswith_def LORA_PREFIX_UNET_def
      LORA_PREFIX_TEXT_ENCODER_def)

lemma find_wrapped0_model: "find_wrapped wrapper0 ''model'' = NoPrefix"
  by (simp add: wrapper0_eval find_wrapped_def startswith_def LORA_PREFIX_UNET_def
      LORA_PREFIX_TEXT_ENCODER_def)

lemmas find_wrapped0 =
  find_wrapped0_to_q find_wrapped0_to_k find_wrapped0_fc1 find_wrapped0_gone find_wrapped0_model

text \<open>The definitions that the evaluation of a parse on a concrete checkpoint unfolds.\<close>

lemmas parse_defs =
  Let_def split_key_def endswith_def startswith_def add_leaf_def item_def scalar_def
  LORA_PREFIX_UNET_def LORA_PREFIX_TEXT_ENCODER_def LoRA_init_def zeros_def
  process_group_def make_lora_layer_def make_sub_layers_def getitem_def bnd_def
  linear_module_def Linear_def shape_at_def weight_copy_def broadcastable_def
  local_alpha_def state_of_def module_to_def tensor_to_def compute_scale_def expand_def

lemma group_keys_bad:
  "group_keys checkpoint_bad [] (LoRA_init ''bad'' ''cpu'' ''float32'' 1) False =
     Inr ([(''lora_unet_tb_attn_to_q'',
             [(''lora_down.weight'', zeros [2, 3]), (''lora_up.weight'', zeros [3, 2])])]
          @ (''lora_unet_tb_attn_to_k'', [(''foo'', scalar 1)])
          # [(''lora_te_mlp_fc1'',
               [(''lora_down.weight'', zeros [2, 3]), (''lora_up.weight'', zeros [3, 2])])],
          (LoRA_init ''bad'' ''cpu'' ''float32'' 1)\<lparr>rank := Some 2\<rparr>, False)"
  by (simp add: checkpoint_bad_def Let_def split_key_def endswith_def startswith_def
      add_leaf_def LORA_PREFIX_UNET_def LORA_PREFIX_TEXT_ENCODER_def LoRA_init_def zeros_def
      scalar_def)

lemma process_groups_bad:
  "\<exists>lora out.
     process_groups wrapper0 ((LoRA_init ''bad'' ''cpu'' ''float32'' 1)\<lparr>rank := Some 2\<rparr>, [])
       [(''lora_unet_tb_attn_to_q'',
          [(''lora_down.weight'', zeros [2, 3]), (''lora_up.weight'', zeros [3, 2])])]
       = Inr (Continue (lora, out))
     \<and> map fst (layers lora) = [''lora_unet_tb_attn_to_q''] \<and> name lora = ''bad''
     \<and> out = [PrintStem ''lora_unet_tb_attn_to_q'',
              PrintKeys [''lora_down.weight'', ''lora_up.weight'']]"
  by (simp add: find_wrapped0 parse_defs)


section \<open>The hook\<close>

lemma hook_step_absent:
  "map_of (layers lora) nm = None \<Longrightarrow> hook_step T nm input_h out lora = out"
  by (simp add: hook_step_def)

lemma foldl_hook_absent:
  "\<forall>lora \<in> set loras. map_of (layers lora) nm = None \<Longrightarrow>
     foldl (hook_step T nm input_h) out loras = out"
  by (induction loras arbitrary: out) (simp_all add: hook_step_absent)

lemmas hook_defs =
  lora_forward_def hook_step_def forward_def LoRALayer_forward_def LoHALayer_forward_def
  times_float_def Let_def

lemmas torch1_defs =
  torch1_def linear1_def linear1_module_def matrix1_def Linear_def zeros_def matmul2_def
  pointwise_def reshaped_def

lemmas registry0_defs =
  registry0_def lora_a_def lora_b_def layer_a_def layer_b_def LoRA_init_def

text \<open>
  Claim C8. When no active adapter has a layer delta under the identifier of the hooked
  layer, or when no adapter is loaded at all, the hook returns the base output unchanged,
  for every input and every base output.
\<close>

theorem no_delta_identity:
  assumes "loaded_loras W = []
           \<or> (\<forall>(n, lora) \<in> set (applied_loras W). map_of (layers lora) nm = None)"
  shows "lora_forward T W nm input_h output = output"
proof (cases "loaded_loras W = []")
  case True
  then show ?thesis by (simp add: lora_forward_def)
next
  case False
  with assms have "\<forall>lora \<in> set (map snd (applied_loras W)). map_of (layers lora) nm = None"
    by auto
  then show ?thesis
    by (simp add: lora_forward_def foldl_hook_absent)
qed

theorem no_delta_identity_witness:
  "lora_forward torch1 registry0 ''layer1'' [1] 3 = 3
   \<and> lora_forward torch1 (registry0\<lparr>loaded_loras := []\<rparr>) ''layer0'' [1] 3 = 3"
  using no_delta_identity [of registry0 "''layer1''" torch1 "[1]" 3]
    no_delta_identity [of "registry0\<lparr>loaded_loras := []\<rparr>" "''layer0''" torch1 "[1]" 3]
  by (simp add: registry0_defs)

text \<open>
  Claim C1. In the loop of the hook, an active adapter that has a low-rank delta for the
  hooked layer adds to the output accumulated so far \<open>up(down(input))\<close>, or
  \<open>up(mid(down(input)))\<close> when the delta has a \<open>mid\<close> leg, times the multiplier of the
  adapter times the scale of the delta. The adapters before it and after it in the active
  mapping contribute in their turn.
\<close>

theorem lowrank_contribution:
  assumes "loaded_loras W \<noteq> []"
    and "applied_loras W = pre @ (n, lora) # post"
    and "map_of (layers lora) nm = Some (LoRALayer owner lname sc u md d)"
  shows "lora_forward T W nm input_h output =
           foldl (hook_step T nm input_h)
             (foldl (hook_step T nm input_h) output (map snd pre)
              + (multiplier lora * sc) *\<^sub>R
                  (case md of
                     None \<Rightarrow> module_call T u [module_call T d input_h]
                   | Some m \<Rightarrow> module_call T u [module_call T m [module_call T d input_h]]))
             (map snd post)"
  using assms
  by (simp add: lora_forward_def hook_step_def forward_def LoRALayer_forward_def
      times_float_def mult.commute split: option.splits)

theorem lowrank_contribution_witness:
  "lora_forward torch1 (registry0\<lparr>applied_loras := [(''a'', lora_a)]\<rparr>) ''layer0'' [1] 3
     = 3 + (2 * 2) * ((1 * 5) * 3)
   \<and> lora_forward torch1 registry0 ''layer0'' [1] 3
     = (3 + (2 * 2) * ((1 * 5) * 3)) + (3 * (1 / 2)) * (((1 * 1) * 2) * 7)"
  using lowrank_contribution [of "registry0\<lparr>applied_loras := [(''a'', lora_a)]\<rparr>" "[]"
      "''a''" lora_a "[]" "''layer0''" "''a''" "''layer0''" 2 "linear1_module 3 None" None
      "linear1_module 5 None" torch1 "[1]" 3]
    lowrank_contribution [of registry0 "[(''a'', lora_a)]"
      "''b''" lora_b "[]" "''layer0''" "''b''" "''layer0''" "1 / 2" "linear1_module 7 None"
      "Some (linear1_module 2 None)" "linear1_module 1 None" torch1 "[1]" 3]
  by (simp add: registry0_defs hook_defs torch1_defs)

text \<open>
  Claim C9. \<^verbatim>\<open>applied_loras[name] = lora\<close> is \<open>AList.update\<close> on the active mapping.
  Entering two adapters under two different names in either order gives the same output
  of the hook, for every hooked layer, input and base output, whatever the active mapping
  held before. The sums are those of a real vector space: exact, with no rounding.
\<close>

lemma hook_step_add:
  "hook_step T nm input_h out lora = out + hook_step T nm input_h 0 lora"
  by (simp add: hook_step_def forward_def LoRALayer_forward_def LoHALayer_forward_def Let_def
      split: option.splits layer.splits)

lemma foldl_hook_sum:
  "foldl (hook_step T nm input_h) out loras
     = out + sum_list (map (hook_step T nm input_h 0) loras)"
proof (induction loras arbitrary: out)
  case Nil
  then show ?case by simp
next
  case (Cons l loras)
  have "foldl (hook_step T nm input_h) out (l # loras)
          = hook_step T nm input_h out l + sum_list (map (hook_step T nm input_h 0) loras)"
    by (simp add: Cons.IH)
  also have "\<dots> = (out + hook_step T nm input_h 0 l)
                    + sum_list (map (hook_step T nm input_h 0) loras)"
    using hook_step_add [of T nm input_h out l] by simp
  finally show ?case by (simp add: add.assoc)
qed

lemma update_twice_sum:
  fixes f :: "'v \<Rightarrow> 'a::ab_semigroup_add"
  fixes g :: "'v \<Rightarrow> 't::comm_monoid_add"
  assumes "ka \<noteq> kb"
  shows "sum_list (map (g \<circ> snd) (AList.update kb b (AList.update ka a xs)))
           = sum_list (map (g \<circ> snd) (AList.update ka a (AList.update kb b xs)))"
  using assms by (induction xs) (auto simp add: add.commute)

theorem accumulation_commutes:
  assumes "nA \<noteq> nB"
  shows "lora_forward T
           (W\<lparr>applied_loras := AList.update nB B (AList.update nA A (applied_loras W))\<rparr>)
           nm input_h out
         = lora_forward T
             (W\<lparr>applied_loras := AList.update nA A (AList.update nB B (applied_loras W))\<rparr>)
             nm input_h out"
  using update_twice_sum [OF assms, of "hook_step T nm input_h 0" B A "applied_loras W"]
  by (simp add: lora_forward_def foldl_hook_sum map_map [symmetric] del: map_map)

theorem accumulation_commutes_witness:
  "lora_forward torch1
     (registry0\<lparr>applied_loras := AList.update ''b'' lora_b (AList.update ''a'' lora_a [])\<rparr>)
     ''layer0'' [1] 3 = 84
   \<and> lora_forward torch1
       (registry0\<lparr>applied_loras := AList.update ''a'' lora_a (AList.update ''b'' lora_b [])\<rparr>)
       ''layer0'' [1] 3 = 84"
  using accumulation_commutes [where nA = "''a''" and nB = "''b''" and T = torch1
      and W = "registry0\<lparr>applied_loras := []\<rparr>" and A = lora_a and B = lora_b
      and nm = "''layer0''" and input_h = "[1]" and out = 3]
  by (simp add: registry0_defs hook_defs torch1_defs)

text \<open>
  Claim C2. \<open>LoHALayer_forward\<close>, the source, applies the weight of the patched layer plus
  the reconstructed delta, with the bias of the patched layer, and scales the whole;
  \<open>LoHALayer_delta_only\<close>, the sentence of the specification, applies the delta alone.
  On a linear layer with weight 2 and bias 1, delta 1, multiplier 1, scale 1, input 1 and
  base output 3, the source returns \<open>3 + ((2 + 1) * 1 + 1)\<close> and the sentence gives
  \<open>3 + 1 * 1\<close>.
\<close>

theorem loha_applies_weight_and_bias:
  "LoHALayer_forward torch1 loha_layer0 lora_h [1] 3 = 7
   \<and> LoHALayer_delta_only torch1 loha_layer0 lora_h [1] 3 = 4
   \<and> lora_forward torch1
       \<lparr>hooks = [], text_modules = [], unet_modules = [],
        applied_loras = [(''h'', lora_h)], loaded_loras = [(''h'', lora_h)]\<rparr>
       ''layer0'' [1] 3 = 7"
  by (simp add: hook_defs LoHALayer_delta_only_def torch1_defs loha_layer0_def lora_h_def
      LoRA_init_def)

text \<open>
  Claim C6. In the small backbone an \<^verbatim>\<open>Attention\<close> block sits inside a
  \<^verbatim>\<open>Transformer2DModel\<close> block, and both classes are targets. Discovery records the two
  linear layers once each in the identifier mapping, and installs two hooks on each of
  them, both under the same identifier: five hooks for three collected layers.
\<close>

theorem discovery_hooks_twice:
  "hooks (LoRAModuleWrapper_init unet0 te0) =
     [(12, ''lora_te_mlp_fc1''),
      (3, ''lora_unet_tb_attn_to_q''), (4, ''lora_unet_tb_attn_to_k''),
      (3, ''lora_unet_tb_attn_to_q''), (4, ''lora_unet_tb_attn_to_k'')]
   \<and> map fst (unet_modules (LoRAModuleWrapper_init unet0 te0)) =
       [''lora_unet_tb_attn_to_q'', ''lora_unet_tb_attn_to_k'']
   \<and> map fst (text_modules (LoRAModuleWrapper_init unet0 te0)) = [''lora_te_mlp_fc1'']"
  using wrapper0_eval by (simp add: wrapper0_def)

section \<open>Parsing\<close>

text \<open>
  Claim C3. The second loop has reached a group whose stem resolves in the registry and
  that has neither \<open>lora_down.weight\<close> nor \<open>hada_w1_b\<close>: the groups \<open>pre\<close> before it were
  processed without a raise or a return and left the adapter \<open>lora\<close> and the printed lines
  \<open>out\<close>. Then \<open>load_from_dict\<close> returns without raising, the adapter is \<open>lora\<close> as the groups
  before had left it, whatever the groups \<open>post\<close> after it hold, and the last lines printed
  are the stem, its keys and the unknown-format message.
\<close>

theorem unknown_format_returns:
  assumes "group_keys state_dict [] self False = Inr (pre @ (stem, values) # post, self', is_loha)"
    and "process_groups W (self', []) pre = Inr (Continue (lora, out))"
    and "find_wrapped W stem = Wrapped wrapped"
    and "map_of values ''lora_down.weight'' = None"
    and "map_of values ''hada_w1_b'' = None"
  shows "load_from_dict W self state_dict =
           Inr (lora, out @ [PrintStem stem, PrintKeys (map fst values),
                  UnknownModule (name lora) stem (class_name (module_class wrapped))])"
  using assms
  by (simp add: load_from_dict_def bnd_Inr process_groups_append process_group_unknown state_of_def)

theorem unknown_format_returns_witness:
  "parsed_layers (load_from_dict wrapper0 (LoRA_init ''bad'' ''cpu'' ''float32'' 1) checkpoint_bad)
     = Some [''lora_unet_tb_attn_to_q'']
   \<and> parsed_log (load_from_dict wrapper0 (LoRA_init ''bad'' ''cpu'' ''float32'' 1) checkpoint_bad)
     = Some [PrintStem ''lora_unet_tb_attn_to_q'',
             PrintKeys [''lora_down.weight'', ''lora_up.weight''],
             PrintStem ''lora_unet_tb_attn_to_k'', PrintKeys [''foo''],
             UnknownModule ''bad'' ''lora_unet_tb_attn_to_k'' ''Linear'']"
proof -
  obtain lora out where p:
    "process_groups wrapper0 ((LoRA_init ''bad'' ''cpu'' ''float32'' 1)\<lparr>rank := Some 2\<rparr>, [])
       [(''lora_unet_tb_attn_to_q'',
          [(''lora_down.weight'', zeros [2, 3]), (''lora_up.weight'', zeros [3, 2])])]
       = Inr (Continue (lora, out))"
    and l: "map fst (layers lora) = [''lora_unet_tb_attn_to_q'']" "name lora = ''bad''"
    and out: "out = [PrintStem ''lora_unet_tb_attn_to_q'',
                     PrintKeys [''lora_down.weight'', ''lora_up.weight'']]"
    using process_groups_bad by (elim exE conjE) (rule that; assumption)
  show ?thesis
    using unknown_format_returns [OF group_keys_bad p find_wrapped0_to_k]
    by (simp add: parsed_layers_def parsed_log_def l out linear_module_def Linear_def)
qed

text \<open>
  Claim C10. The second loop has reached a group whose stem resolves in the registry and
  that has \<open>lora_down.weight\<close> and no \<open>lora_up.weight\<close>. Then \<open>load_from_dict\<close> raises
  \<^verbatim>\<open>KeyError('lora_up.weight')\<close>: the result is the exception, not a returned adapter.
\<close>

lemma group_keys_no_up:
  "group_keys checkpoint_no_up [] (LoRA_init ''x'' ''cpu'' ''float32'' 1) False =
     Inr ([(''lora_unet_tb_attn_to_q'',
             [(''lora_down.weight'', zeros [2, 3]), (''lora_up.weight'', zeros [3, 2])])]
          @ (''lora_unet_tb_attn_to_k'', [(''lora_down.weight'', zeros [2, 3])]) # [],
          (LoRA_init ''x'' ''cpu'' ''float32'' 1)\<lparr>rank := Some 2\<rparr>, False)"
  by (simp add: checkpoint_no_up_def Let_def split_key_def endswith_def startswith_def
      add_leaf_def LORA_PREFIX_UNET_def LORA_PREFIX_TEXT_ENCODER_def LoRA_init_def zeros_def)

lemma process_groups_no_up:
  "\<exists>st.
     process_groups wrapper0 ((LoRA_init ''x'' ''cpu'' ''float32'' 1)\<lparr>rank := Some 2\<rparr>, [])
       [(''lora_unet_tb_attn_to_q'',
          [(''lora_down.weight'', zeros [2, 3]), (''lora_up.weight'', zeros [3, 2])])]
       = Inr (Continue st)"
  by (simp add: find_wrapped0 parse_defs)

theorem missing_up_raises:
  assumes "group_keys state_dict [] self False = Inr (pre @ (stem, values) # post, self', is_loha)"
    and "process_groups W (self', []) pre = Inr (Continue st)"
    and "find_wrapped W stem = Wrapped wrapped"
    and "map_of values ''lora_down.weight'' \<noteq> None"
    and "map_of values ''lora_up.weight'' = None"
  shows "load_from_dict W self state_dict = Inl (KeyError ''lora_up.weight'')"
proof -
  obtain lora out where st: "st = (lora, out)" by (cases st)
  show ?thesis
    using assms unfolding st
    by (simp add: load_from_dict_def bnd_Inr bnd_Inl process_groups_append process_group_no_up)
qed

theorem missing_up_raises_witness:
  "load_from_dict wrapper0 (LoRA_init ''x'' ''cpu'' ''float32'' 1) checkpoint_no_up
     = Inl (KeyError ''lora_up.weight'')"
proof -
  obtain st where p:
    "process_groups wrapper0 ((LoRA_init ''x'' ''cpu'' ''float32'' 1)\<lparr>rank := Some 2\<rparr>, [])
       [(''lora_unet_tb_attn_to_q'',
          [(''lora_down.weight'', zeros [2, 3]), (''lora_up.weight'', zeros [3, 2])])]
       = Inr (Continue st)"
    using process_groups_no_up by blast
  show ?thesis
    using missing_up_raises [OF group_keys_no_up p find_wrapped0_to_k] by simp
qed

end
